theory Spec2Isabelle
  imports Main
begin

section \<open>The hyperkit driver of minikube (pkg/minikube/drivers/hyperkit/driver.go)\<close>

text \<open>
  The driver talks to the operating system, to the hypervisor library and to the DHCP
  lease file. Each of these collaborators is a field of the record \<open>world\<close>: a
  function that gives the collaborator's answer. The calls that change something outside
  the driver (a signal call, a disk image, a launch, a lease lookup, a sleep, a log line) are
  appended to the world's \<open>trace\<close>, so that a statement such as ``no signal is sent'' is a
  statement about the trace. Every driver method takes the world and returns it updated;
  \<open>Start\<close>, which changes the driver, returns the driver as well.
\<close>

subsection \<open>Errors, states, signals\<close>

text \<open>
  Go's \<open>error\<close> values. \<open>ESRCH\<close>, \<open>EPERM\<close> and \<open>ENOENT\<close> are the \<open>syscall.Errno\<close> values
  ``no such process'', ``operation not permitted'' and ``no such file or directory'';
  \<open>ErrMsg\<close> is \<open>errors.New\<close>; \<open>RetriableError\<close> is \<open>&commonutil.RetriableError{Err: err}\<close>;
  \<open>Errorf fmt err\<close> is \<open>fmt.Errorf(fmt, err)\<close>. A Go \<open>error\<close> that may be \<open>nil\<close> is an
  \<open>error option\<close>, \<open>None\<close> being \<open>nil\<close>.
\<close>

datatype error =
    ESRCH
  | EPERM
  | ENOENT
  | ErrMsg string
  | RetriableError error
  | Errorf string error

text \<open>The values of libmachine's \<open>state.State\<close> that the driver returns.\<close>

datatype State = Running | Stopped | Error

text \<open>\<open>os.Signal\<close>: the signal's number (\<open>syscall.Signal(0)\<close> is the existence probe).\<close>

type_synonym Signal = int

definition SIGKILL :: Signal where
  "SIGKILL = 9"

definition SIGTERM :: Signal where
  "SIGTERM = 15"

subsection \<open>Constants (lines 41--45)\<close>

definition isoFilename :: string where
  "isoFilename = ''boot2docker.iso''"

definition pidFileName :: string where
  "pidFileName = ''hyperkit.pid''"

definition machineFileName :: string where
  "machineFileName = ''hyperkit.json''"

subsection \<open>The hypervisor configuration assembled by Start (lines 184--216)\<close>

text \<open>Of the hypervisor library's \<open>HyperKit\<close> and \<open>DiskConfig\<close> the fields that \<open>Start\<close> sets.\<close>

datatype Console = ConsoleStdio | ConsoleFile

record DiskConfig =
  Path :: string
  Size :: int
  Driver :: string

record HyperKit =
  StateDir :: string
  Kernel :: string
  Initrd :: string
  VMNet :: bool
  ISOImage :: string
  Console :: Console
  CPUs :: int
  Memory :: int
  UUID :: string
  Disks :: "DiskConfig list"

subsection \<open>The driver (lines 47--54)\<close>

text \<open>
  \<open>Driver\<close> embeds libmachine's \<open>*drivers.BaseDriver\<close>; the record extension gives the
  promoted fields (\<open>d.IPAddress\<close> is \<open>IPAddress d\<close>). Of \<open>BaseDriver\<close> the fields are modelled
  that the driver's source names, and \<open>SSHKeyPath\<close>, which the method \<open>GetSSHKeyPath\<close> called
  by \<open>publicSSHKeyPath\<close> assigns. Go's \<open>int\<close> fields are only copied, never computed with,
  so they are \<open>int\<close>.
\<close>

record BaseDriver =
  IPAddress :: string
  MachineName :: string
  SSHUser :: string
  SSHKeyPath :: string
  StorePath :: string

record Driver = BaseDriver +
  Boot2DockerURL :: string
  DiskSize :: int
  CPU :: int
  Memory :: int
  Cmdline :: string

subsection \<open>The world: collaborators and the trace of effects\<close>

text \<open>What \<open>os.Open\<close> followed by \<open>json.NewDecoder(f).Decode(&config)\<close> yields for a path:
  the open fails, the decoding fails, or a configuration is read whose \<open>Pid\<close> is given.\<close>

datatype machineFile = OpenFails error | DecodeFails error | Decoded int

text \<open>
  The events: a log line (with its format string), the call \<open>proc.Signal(s)\<close> on the handle
  for a process identifier, the calls of \<open>createDiskImage\<close> and \<open>fixPermissions\<close>, the launch
  \<open>h.Start(cmdline)\<close>, a lease lookup for a link-layer address, and a sleep in seconds.
\<close>

datatype event =
    Warnf string
  | Infof string
  | SignalCall int Signal
  | CreateDiskImage string string int
  | FixPermissions string
  | HyperkitStart HyperKit string
  | Lookup string
  | Sleep nat

text \<open>
  \<^item> \<open>os_Open_Decode\<close>: the machine state file at a path, see \<open>machineFile\<close>;
  \<^item> \<open>os_FindProcess pid\<close>: the error of \<open>os.FindProcess(pid)\<close>; when it is \<open>nil\<close> the
    process handle is the one for \<open>pid\<close> and is not \<open>nil\<close>;
  \<^item> \<open>Process_Signal pid s\<close>: the error of \<open>proc.Signal(s)\<close> on the handle for \<open>pid\<close>;
  \<^item> \<open>os_Stat\<close>: the error of \<open>os.Stat(path)\<close>;
  \<^item> \<open>ResolveStorePath\<close>: the \<open>BaseDriver\<close> method of libmachine, which reads the driver;
  \<^item> \<open>filepath_Join\<close>: \<open>filepath.Join\<close>;
  \<^item> \<open>createDiskImage\<close>, \<open>fixPermissions\<close>: the driver package's helpers (their errors);
  \<^item> \<open>hyperkit_New\<close>: \<open>hyperkit.New("", "", stateDir)\<close>, an error or the fresh configuration;
  \<^item> \<open>HyperKit_Start\<close>: the error of \<open>h.Start(cmdline)\<close>, which launches the subprocess;
  \<^item> \<open>uuid_NewUUID\<close>: the string of the identifier that \<open>uuid.NewUUID()\<close> generates;
  \<^item> \<open>GetMACAddressFromUUID\<close>: what vmnet's identifier-to-address call answers for an
    identifier, a Go pair;
  \<^item> \<open>GetIPAddressByMACAddress n mac\<close>: what the lease lookup returns (a Go pair) when
    \<open>n\<close> lookups have been made before it; \<open>lookups\<close> counts them;
  \<^item> \<open>trace\<close>: the effects so far, oldest first.
\<close>

record world =
  os_Open_Decode :: "string \<Rightarrow> machineFile"
  os_FindProcess :: "int \<Rightarrow> error option"
  Process_Signal :: "int \<Rightarrow> Signal \<Rightarrow> error option"
  os_Stat :: "string \<Rightarrow> error option"
  ResolveStorePath :: "Driver \<Rightarrow> string \<Rightarrow> string"
  filepath_Join :: "string list \<Rightarrow> string"
  createDiskImage :: "string \<Rightarrow> string \<Rightarrow> int \<Rightarrow> error option"
  fixPermissions :: "string \<Rightarrow> error option"
  hyperkit_New :: "string \<Rightarrow> string \<Rightarrow> string \<Rightarrow> error + HyperKit"
  HyperKit_Start :: "HyperKit \<Rightarrow> string \<Rightarrow> error option"
  uuid_NewUUID :: string
  GetMACAddressFromUUID :: "string \<Rightarrow> string \<times> error option"
  GetIPAddressByMACAddress :: "nat \<Rightarrow> string \<Rightarrow> string \<times> error option"
  lookups :: nat
  trace :: "event list"

definition emit :: "event \<Rightarrow> world \<Rightarrow> world" where
  "emit e w = w\<lparr>trace := trace w @ [e]\<rparr>"

text \<open>The effects that a call added to the trace.\<close>

definition new_events :: "world \<Rightarrow> world \<Rightarrow> event list" where
  "new_events w w' = drop (length (trace w)) (trace w')"

text \<open>\<open>os.IsNotExist(err)\<close>: false on \<open>nil\<close>, true on ``no such file or directory''.\<close>

definition IsNotExist :: "error option \<Rightarrow> bool" where
  "IsNotExist err = (err = Some ENOENT)"

subsection \<open>NewDriver, DriverName, GetCreateFlags (lines 56--91)\<close>

text \<open>\<open>NewDriver\<close> sets \<open>SSHUser\<close> only; every other field has Go's zero value.\<close>

definition NewDriver :: "string \<Rightarrow> string \<Rightarrow> Driver" where
  "NewDriver hostName storePath =
     \<lparr>IPAddress = '''', MachineName = '''', SSHUser = ''docker'', SSHKeyPath = '''',
      StorePath = '''',
      Boot2DockerURL = '''', DiskSize = 0, CPU = 0, Memory = 0, Cmdline = ''''\<rparr>"

definition DriverName :: "Driver \<Rightarrow> string" where
  "DriverName d = ''hyperkit''"

text \<open>libmachine's \<open>mcnflag.Flag\<close>: a flag has a name, a usage text and a default.\<close>

datatype Flag =
    StringFlag string string string
  | IntFlag string string int
  | BoolFlag string string

text \<open>\<open>GetCreateFlags\<close> returns \<open>nil\<close>, the slice with no element.\<close>

definition GetCreateFlags :: "Driver \<Rightarrow> Flag list" where
  "GetCreateFlags d = []"

subsection \<open>GetSSHHostname, GetURL (lines 93--106)\<close>

definition GetSSHHostname :: "Driver \<Rightarrow> string \<times> error option" where
  "GetSSHHostname d = (IPAddress d, None)"

text \<open>The error that the specification calls \<open>AddressUnavailableError\<close>.\<close>

definition AddressUnavailableError :: error where
  "AddressUnavailableError = ErrMsg ''IP address is not set''"

text \<open>
  Modelled from the spec: \<open>BaseDriver.GetIP\<close>, the method of the vendored libmachine that
  \<open>GetURL\<close> calls, is not among the sources. The specification says of \<open>GetURL\<close> that it
  ``requires a resolved network address; fails with AddressUnavailableError if none is set'',
  and that the address is otherwise used as it is stored.
\<close>

definition GetIP :: "Driver \<Rightarrow> string \<times> error option" where
  "GetIP d =
     (if IPAddress d = '''' then ('''', Some AddressUnavailableError)
      else (IPAddress d, None))"

text \<open>\<open>fmt.Sprintf("tcp://%s:2376", ip)\<close> is the concatenation.\<close>

definition GetURL :: "Driver \<Rightarrow> string \<times> error option" where
  "GetURL d =
     (case GetIP d of
        (ip, Some err) \<Rightarrow> ('''', Some err)
      | (ip, None) \<Rightarrow> (''tcp://'' @ ip @ '':2376'', None))"

subsection \<open>getPid (lines 273--289)\<close>

definition getPid :: "Driver \<Rightarrow> world \<Rightarrow> int \<times> world" where
  "getPid d w =
     (let pidPath = ResolveStorePath w d machineFileName in
      case os_Open_Decode w pidPath of
        OpenFails err \<Rightarrow> (0, emit (Warnf ''Error reading pid file: %s'') w)
      | DecodeFails err \<Rightarrow> (0, emit (Warnf ''Error decoding pid file: %s'') w)
      | Decoded pid \<Rightarrow> (pid, w))"

subsection \<open>GetState (lines 108--127)\<close>

text \<open>\<open>p.Signal(s)\<close> on the handle for \<open>pid\<close>: the call is recorded, the answer is the
  operating system's.\<close>

definition Signal :: "int \<Rightarrow> Signal \<Rightarrow> world \<Rightarrow> error option \<times> world" where
  "Signal pid s w = (Process_Signal w pid s, emit (SignalCall pid s) w)"

text \<open>
  The test \<open>p == nil\<close> of line 123 comes after a successful \<open>os.FindProcess\<close>, whose handle
  is never \<open>nil\<close>: the branch cannot be taken and has no counterpart here.
\<close>

definition GetState :: "Driver \<Rightarrow> world \<Rightarrow> (State \<times> error option) \<times> world" where
  "GetState d w =
     (case getPid d w of (pid, w1) \<Rightarrow>
        if pid = 0 then ((Stopped, None), w1)
        else
          (case os_FindProcess w1 pid of
             Some err \<Rightarrow> ((Error, Some err), w1)
           | None \<Rightarrow>
               (case Signal pid 0 w1 of
                  (Some err, w2) \<Rightarrow> ((Stopped, None), w2)
                | (None, w2) \<Rightarrow> ((Running, None), w2))))"

subsection \<open>sendSignal, Kill, Stop (lines 129--132, 237--240, 263--271)\<close>

definition sendSignal :: "Driver \<Rightarrow> Signal \<Rightarrow> world \<Rightarrow> error option \<times> world" where
  "sendSignal d s w =
     (case getPid d w of (pid, w1) \<Rightarrow>
        (case os_FindProcess w1 pid of
           Some err \<Rightarrow> (Some err, w1)
         | None \<Rightarrow> Signal pid s w1))"

definition Kill :: "Driver \<Rightarrow> world \<Rightarrow> error option \<times> world" where
  "Kill d w = sendSignal d SIGKILL w"

definition Stop :: "Driver \<Rightarrow> world \<Rightarrow> error option \<times> world" where
  "Stop d w = sendSignal d SIGTERM w"

subsection \<open>Remove (lines 139--151)\<close>

definition Remove :: "Driver \<Rightarrow> world \<Rightarrow> error option \<times> world" where
  "Remove d w =
     (case GetState d w of ((s, err), w1) \<Rightarrow>
        let w2 =
          (if err \<noteq> None \<or> s = Error
           then emit (Infof ''Error checking machine status: %s, assuming it has been removed already'') w1
           else w1)
        in
          if s = Running then
            (case Stop d w2 of
               (Some err, w3) \<Rightarrow> (Some err, w3)
             | (None, w3) \<Rightarrow> (None, w3))
          else (None, w2))"

subsection \<open>The address derivation and the retry loop used by Start\<close>

text \<open>A string split at a separator into its groups (there is always one group at
  least), and groups joined with the separator between them.\<close>

fun splitOn :: "char \<Rightarrow> string \<Rightarrow> string list" where
  "splitOn c [] = [[]]"
| "splitOn c (x # xs) =
     (if x = c then [] # splitOn c xs
      else (case splitOn c xs of
              [] \<Rightarrow> [[x]]
            | g # gs \<Rightarrow> (x # g) # gs))"

fun joinWith :: "char \<Rightarrow> string list \<Rightarrow> string" where
  "joinWith c [] = []"
| "joinWith c [g] = g"
| "joinWith c (g # h # gs) = g @ c # joinWith c (h # gs)"

text \<open>
  Modelled from the spec: the trimming of one group by \<open>trimMacAddress\<close>, which is not among
  the sources. A leading zero of a group is insignificant when another character of the
  group follows it; such zeros are dropped.
\<close>

fun stripLeadingZeros :: "string \<Rightarrow> string" where
  "stripLeadingZeros (x # y # ys) =
     (if x = CHR ''0'' then stripLeadingZeros (y # ys) else x # y # ys)"
| "stripLeadingZeros xs = xs"

text \<open>
  Modelled from the spec: \<open>trimMacAddress\<close>, a function of the driver package, is not among
  the sources. The specification calls it ``a normalization step that strips any
  insignificant leading zero components'' of the link-layer address, trimming byte group by
  byte group. A group is what stands between two colons.
\<close>

definition trimMacAddress :: "string \<Rightarrow> string" where
  "trimMacAddress mac = joinWith CHR '':'' (map stripLeadingZeros (splitOn CHR '':'' mac))"

text \<open>\<open>time.Sleep\<close>, in seconds.\<close>

definition time_Sleep :: "nat \<Rightarrow> Driver \<times> world \<Rightarrow> Driver \<times> world" where
  "time_Sleep t = (\<lambda>(d, w). (d, emit (Sleep t) w))"

text \<open>
  Modelled from the spec: \<open>commonutil.RetryAfter\<close> (package \<open>k8s.io/minikube/pkg/util\<close>) is
  not among the sources. The specification describes the loop as one that ``polls an
  external address-lease lookup up to maxAttempts times, sleeping interval between
  attempts, and fails if no lease appears within the attempt budget'', where ``failure
  mid-loop is not escalated, only final exhaustion is'' and the failure is ``surfaced with
  the underlying cause'': the error of the last attempt. The callback works on the driver
  and the world, since \<open>getIP\<close> assigns \<open>d.IPAddress\<close>.
\<close>

fun RetryAfter ::
  "nat \<Rightarrow> (Driver \<times> world \<Rightarrow> error option \<times> Driver \<times> world) \<Rightarrow> nat \<Rightarrow>
   Driver \<times> world \<Rightarrow> error option \<times> Driver \<times> world" where
  "RetryAfter 0 callback interval s = (Some (ErrMsg ''retry budget exhausted''), s)"
| "RetryAfter (Suc n) callback interval s =
     (case callback s of
        (None, s1) \<Rightarrow> (None, s1)
      | (Some err, s1) \<Rightarrow>
          if n = 0 then (Some err, s1)
          else RetryAfter n callback interval (time_Sleep interval s1))"

subsection \<open>Start (lines 170--235)\<close>

text \<open>
  \<open>BaseDriver.GetSSHKeyPath\<close> is a method of the vendored libmachine on the pointer \<open>d\<close>; it
  is not among the sources. When \<open>d.SSHKeyPath\<close> is empty it assigns
  \<open>d.ResolveStorePath("id_rsa")\<close> to it; it returns the field. The model returns the path
  and the driver.
\<close>

definition GetSSHKeyPath :: "Driver \<Rightarrow> world \<Rightarrow> string \<times> Driver" where
  "GetSSHKeyPath d w =
     (let d1 = (if SSHKeyPath d = '''' then d\<lparr>SSHKeyPath := ResolveStorePath w d ''id_rsa''\<rparr>
                else d)
      in (SSHKeyPath d1, d1))"

text \<open>Lines 259--261.\<close>

definition publicSSHKeyPath :: "Driver \<Rightarrow> world \<Rightarrow> string \<times> Driver" where
  "publicSSHKeyPath d w =
     (case GetSSHKeyPath d w of (keyPath, d1) \<Rightarrow> (keyPath @ ''.pub'', d1))"

text \<open>Line 174: the path of the disk image.\<close>

definition diskPath :: "Driver \<Rightarrow> world \<Rightarrow> string" where
  "diskPath d w = filepath_Join w [ResolveStorePath w d ''.'', MachineName d @ ''.rawdisk'']"

text \<open>Lines 175--182: the disk image is made when \<open>os.Stat\<close> says that it does not exist.
  The result is the error with which \<open>Start\<close> returns there, or \<open>nil\<close>, and the driver, which
  the call \<open>d.publicSSHKeyPath()\<close> of line 176 may have changed.\<close>

definition Start_disk :: "Driver \<Rightarrow> world \<Rightarrow> error option \<times> Driver \<times> world" where
  "Start_disk d w =
     (if IsNotExist (os_Stat w (diskPath d w)) then
        (case publicSSHKeyPath d w of
           (keyPath, d1) \<Rightarrow>
             (let w1 = emit (CreateDiskImage keyPath (diskPath d w) (DiskSize d1)) w in
              case createDiskImage w keyPath (diskPath d w) (DiskSize d1) of
                Some err \<Rightarrow> (Some err, d1, w1)
              | None \<Rightarrow>
                  (let w2 = emit (FixPermissions (ResolveStorePath w1 d1 ''.'')) w1 in
                   case fixPermissions w1 (ResolveStorePath w1 d1 ''.'') of
                     Some err \<Rightarrow> (Some err, d1, w2)
                   | None \<Rightarrow> (None, d1, w2))))
      else (None, d, w))"

text \<open>Lines 171--220: everything before the address is resolved. The result is the error
  with which \<open>Start\<close> returns there, or the link-layer address \<open>mac\<close>, and the driver.\<close>

definition Start_launch :: "Driver \<Rightarrow> world \<Rightarrow> (error + string) \<times> Driver \<times> world" where
  "Start_launch d w =
     (case Start_disk d w of
        (Some err, d1, w1) \<Rightarrow> (Inl err, d1, w1)
      | (None, d1, w1) \<Rightarrow>
          (case hyperkit_New w1 '''' '''' (filepath_Join w1 [StorePath d1, ''machines'', MachineName d1]) of
             Inl err \<Rightarrow> (Inl err, d1, w1)
           | Inr h0 \<Rightarrow>
               (let h1 = h0\<lparr>Kernel := ResolveStorePath w1 d1 ''bzimage'',
                            Initrd := ResolveStorePath w1 d1 ''initrd'',
                            VMNet := True,
                            ISOImage := ResolveStorePath w1 d1 isoFilename,
                            Console := ConsoleFile,
                            CPUs := CPU d1,
                            HyperKit.Memory := Memory d1,
                            UUID := uuid_NewUUID w1\<rparr>;
                    w2 = emit (Infof ''Generated UUID %s'') w1
                in
                  case GetMACAddressFromUUID w2 (UUID h1) of
                    (mac0, Some err) \<Rightarrow> (Inl err, d1, w2)
                  | (mac0, None) \<Rightarrow>
                      (let mac = trimMacAddress mac0;
                           w3 = emit (Infof ''Generated MAC %s'') w2;
                           h2 = h1\<lparr>Disks := [\<lparr>Path = diskPath d w, Size = DiskSize d1,
                                               Driver = ''virtio-blk''\<rparr>]\<rparr>;
                           w4 = emit (Infof ''Starting with cmdline: %s'') w3;
                           w5 = emit (HyperkitStart h2 (Cmdline d1)) w4
                       in
                         case HyperKit_Start w5 h2 (Cmdline d1) of
                           Some err \<Rightarrow> (Inl err, d1, w5)
                         | None \<Rightarrow> (Inr mac, d1, w5)))))"

text \<open>Lines 222--229: the closure \<open>getIP\<close>. The assignment \<open>d.IPAddress, err = ...\<close> stores
  the string the lookup returns whether or not the lookup failed.\<close>

definition getIP :: "string \<Rightarrow> Driver \<times> world \<Rightarrow> error option \<times> Driver \<times> world" where
  "getIP mac = (\<lambda>(d, w).
     case GetIPAddressByMACAddress w (lookups w) mac of
       (ip, err) \<Rightarrow>
         (let d1 = d\<lparr>IPAddress := ip\<rparr>;
              w1 = (emit (Lookup mac) w)\<lparr>lookups := Suc (lookups w)\<rparr>
          in case err of
               Some e \<Rightarrow> (Some (RetriableError e), d1, w1)
             | None \<Rightarrow> (None, d1, w1)))"

text \<open>Lines 231--234, after \<open>Start_launch\<close>: thirty attempts, two seconds apart.\<close>

definition Start :: "Driver \<Rightarrow> world \<Rightarrow> error option \<times> Driver \<times> world" where
  "Start d w =
     (case Start_launch d w of
        (Inl err, d1, w1) \<Rightarrow> (Some err, d1, w1)
      | (Inr mac, d1, w1) \<Rightarrow>
          (case RetryAfter 30 (getIP mac) 2 (d1, w1) of
             (Some err, d2, w2) \<Rightarrow>
               (Some (Errorf ''IP address never found in dhcp leases file %v'' err), d2, w2)
           | (None, d2, w2) \<Rightarrow> (None, d2, w2)))"

subsection \<open>Restart (lines 153--162)\<close>

definition Restart :: "Driver \<Rightarrow> world \<Rightarrow> error option \<times> Driver \<times> world" where
  "Restart d w =
     (case Stop d w of
        (Some err, w1) \<Rightarrow> (Some err, d, w1)
      | (None, w1) \<Rightarrow>
          (case Start d w1 of
             (Some err, d1, w2) \<Rightarrow> (Some err, d1, w2)
           | (None, d1, w2) \<Rightarrow> (None, d1, w2)))"

subsection \<open>Concrete drivers and worlds\<close>

text \<open>A configured driver, and a world in which no machine state file and no disk image
  exist, every collaborator succeeds and the lease appears at the third lookup. The other
  worlds differ from it in the machine state file and in what the process table answers.\<close>

definition driver0 :: Driver where
  "driver0 =
     \<lparr>IPAddress = '''', MachineName = ''minikube'', SSHUser = ''docker'', SSHKeyPath = '''',
      StorePath = ''/Users/u/.minikube'',
      Boot2DockerURL = ''file:///Users/u/.minikube/cache/iso/minikube.iso'',
      DiskSize = 20000, CPU = 2, Memory = 2048, Cmdline = ''loglevel=3 user=docker''\<rparr>"

definition world0 :: world where
  "world0 =
     \<lparr>os_Open_Decode = (\<lambda>p. OpenFails ENOENT),
      os_FindProcess = (\<lambda>pid. None),
      Process_Signal = (\<lambda>pid s. if pid = 0 then Some (ErrMsg ''os: process not initialized'')
                                 else Some ESRCH),
      os_Stat = (\<lambda>p. Some ENOENT),
      ResolveStorePath = (\<lambda>d f. joinWith CHR ''/'' [StorePath d, ''machines'', MachineName d, f]),
      filepath_Join = joinWith CHR ''/'',
      createDiskImage = (\<lambda>k p n. None),
      fixPermissions = (\<lambda>p. None),
      hyperkit_New = (\<lambda>a b dir. Inr
        \<lparr>StateDir = dir, Kernel = '''', Initrd = '''', VMNet = False, ISOImage = '''',
         Console = ConsoleStdio, CPUs = 1, Memory = 1024, UUID = '''', Disks = []\<rparr>),
      HyperKit_Start = (\<lambda>h c. None),
      uuid_NewUUID = ''5c0cf3f2-1b2f-11e7-93ae-92361f002671'',
      GetMACAddressFromUUID = (\<lambda>u. (''0a:00:27:0f:3b:c0'', None)),
      GetIPAddressByMACAddress = (\<lambda>n mac.
        if n < 2 then ('''', Some (ErrMsg ''could not find an IP address'')) else (''192.168.64.2'', None)),
      lookups = 0,
      trace = []\<rparr>"

text \<open>The state file names process 4711, which is alive and may be signalled.\<close>

definition world_running :: world where
  "world_running =
     world0\<lparr>os_Open_Decode := (\<lambda>p. Decoded 4711),
            Process_Signal := (\<lambda>pid s. if pid = 4711 then None else Some ESRCH)\<rparr>"

text \<open>The state file names process 4712, which is gone: every signal answers ``no such
  process''.\<close>

definition world_stale :: world where
  "world_stale = world0\<lparr>os_Open_Decode := (\<lambda>p. Decoded 4712)\<rparr>"

text \<open>The state file names process 1, which is alive and belongs to another user: every
  signal, the probe too, answers ``operation not permitted''.\<close>

definition world_eperm :: world where
  "world_eperm =
     world0\<lparr>os_Open_Decode := (\<lambda>p. Decoded 1), Process_Signal := (\<lambda>pid s. Some EPERM)\<rparr>"

text \<open>The process lookup itself fails (as it can where a handle has to be opened).\<close>

definition world_nofind :: world where
  "world_nofind =
     world0\<lparr>os_Open_Decode := (\<lambda>p. Decoded 4713),
            os_FindProcess := (\<lambda>pid. Some (ErrMsg ''OpenProcess: access is denied''))\<rparr>"

text \<open>The state file names process 4714, which is alive and answers the probe, but may not
  be signalled otherwise.\<close>

definition world_protected :: world where
  "world_protected =
     world0\<lparr>os_Open_Decode := (\<lambda>p. Decoded 4714),
            Process_Signal := (\<lambda>pid s. if s = 0 then None else Some EPERM)\<rparr>"

text \<open>The disk image exists already.\<close>

definition world_disk :: world where
  "world_disk = world0\<lparr>os_Stat := (\<lambda>p. None)\<rparr>"

text \<open>No lease ever appears.\<close>

definition world_nolease :: world where
  "world_nolease =
     world0\<lparr>GetIPAddressByMACAddress := (\<lambda>n mac. ('''', Some (ErrMsg ''could not find an IP address'')))\<rparr>"

text \<open>A driver whose address has been resolved.\<close>

definition driver_up :: Driver where
  "driver_up = driver0\<lparr>IPAddress := ''192.168.64.2''\<rparr>"

subsection \<open>Classes of events\<close>

fun isProvision :: "event \<Rightarrow> bool" where
  "isProvision (CreateDiskImage k p n) = True"
| "isProvision (FixPermissions p) = True"
| "isProvision e = False"

fun isSignalCall :: "event \<Rightarrow> bool" where
  "isSignalCall (SignalCall pid s) = True"
| "isSignalCall e = False"

fun isLookupOrSleep :: "event \<Rightarrow> bool" where
  "isLookupOrSleep (Lookup mac) = True"
| "isLookupOrSleep (Sleep t) = True"
| "isLookupOrSleep e = False"

section \<open>Properties\<close>

subsection \<open>Events and fields\<close>

lemma emit_fields [simp]:
  "os_Open_Decode (emit e w) = os_Open_Decode w"
  "os_FindProcess (emit e w) = os_FindProcess w"
  "Process_Signal (emit e w) = Process_Signal w"
  "os_Stat (emit e w) = os_Stat w"
  "ResolveStorePath (emit e w) = ResolveStorePath w"
  "filepath_Join (emit e w) = filepath_Join w"
  "createDiskImage (emit e w) = createDiskImage w"
  "fixPermissions (emit e w) = fixPermissions w"
  "hyperkit_New (emit e w) = hyperkit_New w"
  "HyperKit_Start (emit e w) = HyperKit_Start w"
  "uuid_NewUUID (emit e w) = uuid_NewUUID w"
  "GetMACAddressFromUUID (emit e w) = GetMACAddressFromUUID w"
  "GetIPAddressByMACAddress (emit e w) = GetIPAddressByMACAddress w"
  "lookups (emit e w) = lookups w"
  "trace (emit e w) = trace w @ [e]"
  by (simp_all add: emit_def)

subsection \<open>Construction and identity\<close>

text \<open>
  Claim C9. \<open>NewDriver\<close> ignores both of its arguments: whatever \<open>hostName\<close> and
  \<open>storePath\<close> are, the driver it returns is the same, with \<open>SSHUser\<close> set to \<open>docker\<close> and
  with empty \<open>MachineName\<close> and \<open>StorePath\<close>.
\<close>

theorem NewDriver_ignores_arguments:
  "NewDriver hostName storePath = NewDriver hostName' storePath' \<and>
   SSHUser (NewDriver hostName storePath) = ''docker'' \<and>
   MachineName (NewDriver hostName storePath) = '''' \<and>
   StorePath (NewDriver hostName storePath) = ''''"
  by (simp add: NewDriver_def)

theorem NewDriver_ignores_arguments_witness:
  "NewDriver ''minikube'' ''/Users/u/.minikube'' = NewDriver '''' '''' \<and>
   SSHUser (NewDriver ''minikube'' ''/Users/u/.minikube'') = ''docker'' \<and>
   MachineName (NewDriver ''minikube'' ''/Users/u/.minikube'') = '''' \<and>
   StorePath (NewDriver ''minikube'' ''/Users/u/.minikube'') = ''''"
  by (rule NewDriver_ignores_arguments)

text \<open>
  Claim C6, as the code has it. \<open>DriverName\<close> returns the string \<open>hyperkit\<close> for every
  driver, and \<open>GetCreateFlags\<close> returns \<open>nil\<close>: the flag list is empty, it enumerates no
  configuration option.
\<close>

theorem DriverName_GetCreateFlags:
  "DriverName d = ''hyperkit'' \<and> GetCreateFlags d = []"
  by (simp add: DriverName_def GetCreateFlags_def)

theorem DriverName_GetCreateFlags_witness:
  "DriverName driver0 = ''hyperkit'' \<and> GetCreateFlags driver0 = []"
  by (rule DriverName_GetCreateFlags)

text \<open>The flag list of the configured driver is not non-empty.\<close>

theorem GetCreateFlags_nonempty_counterexample:
  "\<not> (DriverName driver0 = ''hyperkit'' \<and> GetCreateFlags driver0 \<noteq> [])"
  by (simp add: GetCreateFlags_def)

subsection \<open>The URL of the host\<close>

text \<open>
  Claim C8. \<open>GetURL\<close> fails when no network address is stored on the driver, and otherwise
  returns exactly \<open>tcp://<address>:2376\<close> built from the stored address; whenever it
  returns without an error the address is set.
\<close>

theorem GetURL_address:
  "(IPAddress d = '''' \<longrightarrow> GetURL d = ('''', Some AddressUnavailableError)) \<and>
   (IPAddress d \<noteq> '''' \<longrightarrow> GetURL d = (''tcp://'' @ IPAddress d @ '':2376'', None)) \<and>
   (snd (GetURL d) = None \<longrightarrow> IPAddress d \<noteq> '''')"
  by (simp add: GetURL_def GetIP_def)

theorem GetURL_address_witness:
  "GetURL driver0 = ('''', Some AddressUnavailableError) \<and>
   GetURL driver_up = (''tcp://192.168.64.2:2376'', None) \<and>
   snd (GetURL driver_up) = None \<and> IPAddress driver_up \<noteq> ''''"
proof -
  have unset: "IPAddress driver0 = ''''"
    by (simp add: driver0_def)
  have set: "IPAddress driver_up = ''192.168.64.2''"
    by (simp add: driver_up_def)
  from GetURL_address [of driver0] unset
  have a: "GetURL driver0 = ('''', Some AddressUnavailableError)"
    by simp
  from GetURL_address [of driver_up] set
  have b: "GetURL driver_up = (''tcp://192.168.64.2:2376'', None)"
    by simp
  from a b set show ?thesis
    by simp
qed

subsection \<open>The state of the host\<close>

text \<open>
  Claim C1, as the code has it. \<open>GetState\<close> returns \<open>Stopped\<close> when the machine state file is
  absent or unreadable (the process identifier resolves to 0); \<open>Running\<close> when the process
  for the persisted identifier is found and the zero-signal probe succeeds; \<open>Error\<close>, with
  the underlying error, when looking the process up (\<open>os.FindProcess\<close>) fails; and \<open>Stopped\<close>
  with no error when the zero-signal probe fails, whatever the probe's error is.
\<close>

theorem GetState_cases:
  "((\<forall>pid. os_Open_Decode w (ResolveStorePath w d machineFileName) \<noteq> Decoded pid) \<longrightarrow>
       fst (getPid d w) = 0) \<and>
   (fst (getPid d w) = 0 \<longrightarrow> fst (GetState d w) = (Stopped, None)) \<and>
   (fst (getPid d w) \<noteq> 0 \<and> os_FindProcess w (fst (getPid d w)) = None \<and>
    Process_Signal w (fst (getPid d w)) 0 = None \<longrightarrow>
       fst (GetState d w) = (Running, None)) \<and>
   (\<forall>err. fst (getPid d w) \<noteq> 0 \<and> os_FindProcess w (fst (getPid d w)) = Some err \<longrightarrow>
       fst (GetState d w) = (Error, Some err)) \<and>
   (\<forall>err. fst (getPid d w) \<noteq> 0 \<and> os_FindProcess w (fst (getPid d w)) = None \<and>
    Process_Signal w (fst (getPid d w)) 0 = Some err \<longrightarrow>
       fst (GetState d w) = (Stopped, None))"
  by (cases "os_Open_Decode w (ResolveStorePath w d machineFileName)")
     (auto simp: GetState_def getPid_def Signal_def split: option.splits)

theorem GetState_cases_witness:
  "fst (GetState driver0 world0) = (Stopped, None) \<and>
   fst (GetState driver0 world_running) = (Running, None) \<and>
   fst (GetState driver0 world_nofind) = (Error, Some (ErrMsg ''OpenProcess: access is denied'')) \<and>
   fst (GetState driver0 world_eperm) = (Stopped, None)"
proof -
  have nofile: "\<forall>pid. os_Open_Decode world0 (ResolveStorePath world0 driver0 machineFileName) \<noteq> Decoded pid"
    by (simp add: world0_def)
  from GetState_cases [of world0 driver0] nofile
  have a: "fst (GetState driver0 world0) = (Stopped, None)"
    by simp
  have "fst (getPid driver0 world_running) = 4711" "os_FindProcess world_running 4711 = None"
    "Process_Signal world_running 4711 0 = None"
    by (simp_all add: getPid_def world_running_def world0_def)
  with GetState_cases [of world_running driver0]
  have b: "fst (GetState driver0 world_running) = (Running, None)"
    by simp
  have "fst (getPid driver0 world_nofind) = 4713"
    "os_FindProcess world_nofind 4713 = Some (ErrMsg ''OpenProcess: access is denied'')"
    by (simp_all add: getPid_def world_nofind_def world0_def)
  with GetState_cases [of world_nofind driver0]
  have c: "fst (GetState driver0 world_nofind) = (Error, Some (ErrMsg ''OpenProcess: access is denied''))"
    by simp
  have "fst (getPid driver0 world_eperm) = 1" "os_FindProcess world_eperm 1 = None"
    "Process_Signal world_eperm 1 0 = Some EPERM"
    by (simp_all add: getPid_def world_eperm_def world0_def)
  with GetState_cases [of world_eperm driver0]
  have e: "fst (GetState driver0 world_eperm) = (Stopped, None)"
    by simp
  from a b c e show ?thesis
    by simp
qed

text \<open>A probe that fails with ``operation not permitted'', which is not ``no such
  process'', gives \<open>Stopped\<close> and no error.\<close>

theorem GetState_probe_error_counterexample:
  "fst (getPid driver0 world_eperm) = 1 \<and>
   os_FindProcess world_eperm 1 = None \<and>
   Process_Signal world_eperm 1 0 = Some EPERM \<and> EPERM \<noteq> ESRCH \<and>
   fst (GetState driver0 world_eperm) = (Stopped, None)"
  by (simp add: GetState_def getPid_def Signal_def world_eperm_def world0_def emit_def)

subsection \<open>Signals\<close>

text \<open>
  Claim C2, as the code has it. \<open>Stop\<close> and \<open>Kill\<close> are \<open>sendSignal\<close> with \<open>SIGTERM\<close> and
  \<open>SIGKILL\<close>. \<open>sendSignal\<close> has no guard for a stopped machine: it reads the process
  identifier (0 when there is none), looks the process up and, unless the lookup fails,
  calls \<open>proc.Signal\<close> once on that identifier and returns what the call returns; when the
  lookup fails it returns the lookup's error and makes no signal call.
\<close>

theorem sendSignal_unguarded:
  "Stop d w = sendSignal d SIGTERM w \<and> Kill d w = sendSignal d SIGKILL w \<and>
   (\<forall>err. os_FindProcess w (fst (getPid d w)) = Some err \<longrightarrow>
      fst (sendSignal d s w) = Some err \<and>
      filter isSignalCall (new_events w (snd (sendSignal d s w))) = []) \<and>
   (os_FindProcess w (fst (getPid d w)) = None \<longrightarrow>
      fst (sendSignal d s w) = Process_Signal w (fst (getPid d w)) s \<and>
      filter isSignalCall (new_events w (snd (sendSignal d s w))) =
        [SignalCall (fst (getPid d w)) s])"
  by (cases "os_Open_Decode w (ResolveStorePath w d machineFileName)")
     (auto simp: Stop_def Kill_def sendSignal_def getPid_def Signal_def new_events_def)

theorem sendSignal_unguarded_witness:
  "fst (Stop driver0 world_running) = None \<and>
   filter isSignalCall (new_events world_running (snd (Stop driver0 world_running))) =
     [SignalCall 4711 15] \<and>
   fst (Kill driver0 world_nofind) = Some (ErrMsg ''OpenProcess: access is denied'') \<and>
   filter isSignalCall (new_events world_nofind (snd (Kill driver0 world_nofind))) = []"
proof -
  have pid: "fst (getPid driver0 world_running) = 4711"
    by (simp add: getPid_def world_running_def world0_def)
  have found: "os_FindProcess world_running 4711 = None"
    by (simp add: world_running_def world0_def)
  have alive: "Process_Signal world_running 4711 SIGTERM = None"
    by (simp add: world_running_def world0_def)
  have pid': "fst (getPid driver0 world_nofind) = 4713"
    by (simp add: getPid_def world_nofind_def world0_def)
  have lost: "os_FindProcess world_nofind 4713 = Some (ErrMsg ''OpenProcess: access is denied'')"
    by (simp add: world_nofind_def world0_def)
  from sendSignal_unguarded [of driver0 world_running SIGTERM] pid found alive
  have a: "fst (Stop driver0 world_running) = None \<and>
    filter isSignalCall (new_events world_running (snd (Stop driver0 world_running))) =
      [SignalCall 4711 15]"
    by (simp add: SIGTERM_def)
  from sendSignal_unguarded [of driver0 world_nofind SIGKILL] pid' lost
  have b: "fst (Kill driver0 world_nofind) = Some (ErrMsg ''OpenProcess: access is denied'') \<and>
    filter isSignalCall (new_events world_nofind (snd (Kill driver0 world_nofind))) = []"
    by simp
  from a b show ?thesis
    by simp
qed

text \<open>On a stopped machine whose state file names a process that is gone, \<open>Stop\<close> makes
  the signal call and returns its error; with no state file \<open>Kill\<close> returns an error too.\<close>

theorem Stop_stopped_counterexample:
  "fst (GetState driver0 world_stale) = (Stopped, None) \<and>
   fst (Stop driver0 world_stale) = Some ESRCH \<and>
   filter isSignalCall (new_events world_stale (snd (Stop driver0 world_stale))) =
     [SignalCall 4712 SIGTERM] \<and>
   fst (getPid driver0 world0) = 0 \<and>
   fst (GetState driver0 world0) = (Stopped, None) \<and>
   fst (Kill driver0 world0) = Some (ErrMsg ''os: process not initialized'')"
  by (simp add: GetState_def Stop_def Kill_def sendSignal_def getPid_def Signal_def
      new_events_def world_stale_def world0_def emit_def)

subsection \<open>Removal\<close>

lemmas world_defs = world0_def world_running_def world_stale_def world_eperm_def
  world_nofind_def world_protected_def world_disk_def world_nolease_def

text \<open>
  Claim C7. \<open>Remove\<close> reads the state first. When the state is not \<open>Running\<close> it returns
  success and makes no signal call after the probe; when the probe gave an error or the
  state \<open>Error\<close>, it logs that and returns success. When the state is \<open>Running\<close> it calls
  \<open>Stop\<close> (one \<open>SIGTERM\<close> signal call) and returns what \<open>Stop\<close> returns. So \<open>Remove\<close> fails
  only when the state was \<open>Running\<close> and \<open>Stop\<close> failed.
\<close>

theorem Remove_best_effort:
  "(fst (fst (GetState d w)) \<noteq> Running \<longrightarrow>
      fst (Remove d w) = None \<and>
      filter isSignalCall (new_events (snd (GetState d w)) (snd (Remove d w))) = []) \<and>
   (snd (fst (GetState d w)) \<noteq> None \<or> fst (fst (GetState d w)) = Error \<longrightarrow>
      fst (Remove d w) = None \<and>
      new_events (snd (GetState d w)) (snd (Remove d w)) =
        [Infof ''Error checking machine status: %s, assuming it has been removed already'']) \<and>
   (fst (fst (GetState d w)) = Running \<longrightarrow>
      fst (Remove d w) = fst (Stop d (snd (GetState d w))) \<and>
      fst (Remove d w) = Process_Signal w (fst (getPid d w)) SIGTERM \<and>
      new_events (snd (GetState d w)) (snd (Remove d w)) =
        [SignalCall (fst (getPid d w)) SIGTERM]) \<and>
   (fst (Remove d w) \<noteq> None \<longrightarrow> fst (fst (GetState d w)) = Running)"
  by (cases "os_Open_Decode w (ResolveStorePath w d machineFileName)")
     (auto simp: Remove_def GetState_def Stop_def sendSignal_def getPid_def Signal_def
        new_events_def Let_def split: option.splits)

theorem Remove_best_effort_witness:
  "fst (Remove driver0 world0) = None \<and>
   fst (Remove driver0 world_nofind) = None \<and>
   new_events (snd (GetState driver0 world_nofind)) (snd (Remove driver0 world_nofind)) =
     [Infof ''Error checking machine status: %s, assuming it has been removed already''] \<and>
   fst (Remove driver0 world_running) = None \<and>
   new_events (snd (GetState driver0 world_running)) (snd (Remove driver0 world_running)) =
     [SignalCall 4711 15] \<and>
   fst (Remove driver0 world_protected) = Some EPERM"
proof -
  have s0: "fst (GetState driver0 world0) = (Stopped, None)"
    and s1: "fst (GetState driver0 world_nofind) = (Error, Some (ErrMsg ''OpenProcess: access is denied''))"
    and s2: "fst (GetState driver0 world_running) = (Running, None)"
    and s3: "fst (GetState driver0 world_protected) = (Running, None)"
    by (simp_all add: GetState_def getPid_def Signal_def world_defs emit_def)
  have p2: "fst (getPid driver0 world_running) = 4711"
    "Process_Signal world_running 4711 SIGTERM = None"
    and p3: "fst (getPid driver0 world_protected) = 4714"
    "Process_Signal world_protected 4714 SIGTERM = Some EPERM"
    by (simp_all add: getPid_def world_defs SIGTERM_def)
  from Remove_best_effort [of driver0 world0] s0
  have a: "fst (Remove driver0 world0) = None"
    by simp
  from Remove_best_effort [of driver0 world_nofind] s1
  have b: "fst (Remove driver0 world_nofind) = None"
    "new_events (snd (GetState driver0 world_nofind)) (snd (Remove driver0 world_nofind)) =
     [Infof ''Error checking machine status: %s, assuming it has been removed already'']"
    by simp_all
  from s2 s3 have running: "fst (fst (GetState driver0 world_running)) = Running"
    "fst (fst (GetState driver0 world_protected)) = Running"
    by simp_all
  from Remove_best_effort [of driver0 world_running] running(1)
  have "fst (Remove driver0 world_running) =
      Process_Signal world_running (fst (getPid driver0 world_running)) SIGTERM \<and>
    new_events (snd (GetState driver0 world_running)) (snd (Remove driver0 world_running)) =
      [SignalCall (fst (getPid driver0 world_running)) SIGTERM]"
    by blast
  with p2 have c: "fst (Remove driver0 world_running) = None"
    "new_events (snd (GetState driver0 world_running)) (snd (Remove driver0 world_running)) =
     [SignalCall 4711 15]"
    by (simp_all add: SIGTERM_def)
  from Remove_best_effort [of driver0 world_protected] running(2)
  have "fst (Remove driver0 world_protected) =
      Process_Signal world_protected (fst (getPid driver0 world_protected)) SIGTERM"
    by blast
  with p3 have e: "fst (Remove driver0 world_protected) = Some EPERM"
    by simp
  from a b c e show ?thesis
    by simp
qed

subsection \<open>The retry loop over the lease lookup\<close>

lemma getIP_apply:
  "getIP mac (d, w) =
     ((case snd (GetIPAddressByMACAddress w (lookups w) mac) of
         Some e \<Rightarrow> Some (RetriableError e) | None \<Rightarrow> None),
      d\<lparr>IPAddress := fst (GetIPAddressByMACAddress w (lookups w) mac)\<rparr>,
      w\<lparr>lookups := Suc (lookups w), trace := trace w @ [Lookup mac]\<rparr>)"
  by (cases "GetIPAddressByMACAddress w (lookups w) mac")
     (simp add: getIP_def emit_def split: option.splits)

lemma RetryAfter_getIP_success:
  "k < n \<Longrightarrow>
   (\<forall>j<k. snd (GetIPAddressByMACAddress w (lookups w + j) mac) \<noteq> None) \<Longrightarrow>
   snd (GetIPAddressByMACAddress w (lookups w + k) mac) = None \<Longrightarrow>
   RetryAfter n (getIP mac) t (d, w) =
     (None,
      d\<lparr>IPAddress := fst (GetIPAddressByMACAddress w (lookups w + k) mac)\<rparr>,
      w\<lparr>lookups := lookups w + Suc k,
        trace := trace w @ concat (replicate k [Lookup mac, Sleep t]) @ [Lookup mac]\<rparr>)"
proof (induction n arbitrary: k d w)
  case 0
  then show ?case by simp
next
  case (Suc n)
  show ?case
  proof (cases k)
    case 0
    with Suc.prems show ?thesis
      by (simp add: getIP_apply)
  next
    case (Suc k')
    let ?w1 = "w\<lparr>lookups := Suc (lookups w), trace := trace w @ [Lookup mac, Sleep t]\<rparr>"
    let ?d1 = "d\<lparr>IPAddress := fst (GetIPAddressByMACAddress w (lookups w) mac)\<rparr>"
    from Suc.prems Suc have first: "snd (GetIPAddressByMACAddress w (lookups w) mac) \<noteq> None"
      by (metis add.right_neutral zero_less_Suc)
    from Suc.prems Suc have n: "n \<noteq> 0" "k' < n"
      by simp_all
    have fails: "\<forall>j<k'. snd (GetIPAddressByMACAddress ?w1 (lookups ?w1 + j) mac) \<noteq> None"
    proof (intro allI impI)
      fix j assume "j < k'"
      then have "Suc j < k" using Suc by simp
      with Suc.prems(2) have "snd (GetIPAddressByMACAddress w (lookups w + Suc j) mac) \<noteq> None"
        by blast
      then show "snd (GetIPAddressByMACAddress ?w1 (lookups ?w1 + j) mac) \<noteq> None"
        by simp
    qed
    from Suc.prems(3) Suc
    have last: "snd (GetIPAddressByMACAddress ?w1 (lookups ?w1 + k') mac) = None"
      by simp
    from first n have "RetryAfter (Suc n) (getIP mac) t (d, w) = RetryAfter n (getIP mac) t (?d1, ?w1)"
      by (auto simp: getIP_apply time_Sleep_def emit_def)
    also have "\<dots> =
      (None,
       ?d1\<lparr>IPAddress := fst (GetIPAddressByMACAddress ?w1 (lookups ?w1 + k') mac)\<rparr>,
       ?w1\<lparr>lookups := lookups ?w1 + Suc k',
         trace := trace ?w1 @ concat (replicate k' [Lookup mac, Sleep t]) @ [Lookup mac]\<rparr>)"
      by (rule Suc.IH [OF n(2) fails last])
    finally show ?thesis
      using Suc by simp
  qed
qed

lemma RetryAfter_getIP_exhausted:
  "0 < n \<Longrightarrow>
   (\<forall>j<n. snd (GetIPAddressByMACAddress w (lookups w + j) mac) \<noteq> None) \<Longrightarrow>
   RetryAfter n (getIP mac) t (d, w) =
     (Some (RetriableError (the (snd (GetIPAddressByMACAddress w (lookups w + (n - 1)) mac)))),
      d\<lparr>IPAddress := fst (GetIPAddressByMACAddress w (lookups w + (n - 1)) mac)\<rparr>,
      w\<lparr>lookups := lookups w + n,
        trace := trace w @ concat (replicate (n - 1) [Lookup mac, Sleep t]) @ [Lookup mac]\<rparr>)"
proof (induction n arbitrary: d w)
  case 0
  then show ?case by simp
next
  case (Suc n)
  let ?w1 = "w\<lparr>lookups := Suc (lookups w), trace := trace w @ [Lookup mac, Sleep t]\<rparr>"
  let ?d1 = "d\<lparr>IPAddress := fst (GetIPAddressByMACAddress w (lookups w) mac)\<rparr>"
  from Suc.prems(2) have first: "snd (GetIPAddressByMACAddress w (lookups w) mac) \<noteq> None"
    by (metis add.right_neutral zero_less_Suc)
  show ?case
  proof (cases "n = 0")
    case True
    with first show ?thesis
      by (auto simp: getIP_apply)
  next
    case False
    then have pos: "0 < n" by simp
    have fails: "\<forall>j<n. snd (GetIPAddressByMACAddress ?w1 (lookups ?w1 + j) mac) \<noteq> None"
    proof (intro allI impI)
      fix j assume "j < n"
      then have "Suc j < Suc n" by simp
      with Suc.prems(2) have "snd (GetIPAddressByMACAddress w (lookups w + Suc j) mac) \<noteq> None"
        by blast
      then show "snd (GetIPAddressByMACAddress ?w1 (lookups ?w1 + j) mac) \<noteq> None"
        by simp
    qed
    from first False
    have "RetryAfter (Suc n) (getIP mac) t (d, w) = RetryAfter n (getIP mac) t (?d1, ?w1)"
      by (auto simp: getIP_apply time_Sleep_def emit_def)
    also have "\<dots> =
      (Some (RetriableError (the (snd (GetIPAddressByMACAddress ?w1 (lookups ?w1 + (n - 1)) mac)))),
       ?d1\<lparr>IPAddress := fst (GetIPAddressByMACAddress ?w1 (lookups ?w1 + (n - 1)) mac)\<rparr>,
       ?w1\<lparr>lookups := lookups ?w1 + n,
         trace := trace ?w1 @ concat (replicate (n - 1) [Lookup mac, Sleep t]) @ [Lookup mac]\<rparr>)"
      by (rule Suc.IH [OF pos fails])
    finally show ?thesis
      using pos by (cases n) simp_all
  qed
qed

lemma RetryAfter_getIP_frame:
  "RetryAfter n (getIP mac) t (d, w) = (r, d', w') \<Longrightarrow>
   d' = d\<lparr>IPAddress := IPAddress d'\<rparr> \<and>
   (\<exists>evs. trace w' = trace w @ evs \<and> filter isProvision evs = [])"
proof (induction n arbitrary: d w)
  case 0
  then show ?case by auto
next
  case (Suc n)
  let ?w0 = "w\<lparr>lookups := Suc (lookups w), trace := trace w @ [Lookup mac]\<rparr>"
  let ?w1 = "w\<lparr>lookups := Suc (lookups w), trace := trace w @ [Lookup mac, Sleep t]\<rparr>"
  let ?d1 = "d\<lparr>IPAddress := fst (GetIPAddressByMACAddress w (lookups w) mac)\<rparr>"
  show ?case
  proof (cases "snd (GetIPAddressByMACAddress w (lookups w) mac) = None \<or> n = 0")
    case True
    with Suc.prems have "d' = ?d1" "w' = ?w0"
      by (auto simp: getIP_apply split: option.splits if_splits)
    then show ?thesis
      by simp
  next
    case False
    with Suc.prems have "RetryAfter n (getIP mac) t (?d1, ?w1) = (r, d', w')"
      by (auto simp: getIP_apply time_Sleep_def emit_def)
    from Suc.IH [OF this] obtain evs where
      d': "d' = ?d1\<lparr>IPAddress := IPAddress d'\<rparr>" and
      evs: "trace w' = trace ?w1 @ evs" "filter isProvision evs = []"
      by blast
    from d' have "d' = d\<lparr>IPAddress := IPAddress d'\<rparr>"
      by simp
    moreover from evs have "trace w' = trace w @ ([Lookup mac, Sleep t] @ evs) \<and>
        filter isProvision ([Lookup mac, Sleep t] @ evs) = []"
      by simp
    ultimately show ?thesis
      by blast
  qed
qed

subsection \<open>Start\<close>

lemma publicSSHKeyPath_frame:
  "snd (publicSSHKeyPath d w) =
     d\<lparr>SSHKeyPath := SSHKeyPath (snd (publicSSHKeyPath d w))\<rparr>"
  "SSHKeyPath (snd (publicSSHKeyPath d w)) =
     (if SSHKeyPath d = '''' then ResolveStorePath w d ''id_rsa'' else SSHKeyPath d)"
  "DiskSize (snd (publicSSHKeyPath d w)) = DiskSize d"
  by (simp_all add: publicSSHKeyPath_def GetSSHKeyPath_def Let_def)

lemma Start_launch_facts:
  assumes "Start_launch d w = (r, d1, w1)"
  shows "\<exists>evs. trace w1 = trace w @ evs \<and>
           filter isProvision evs =
             (if IsNotExist (os_Stat w (diskPath d w)) then
                CreateDiskImage (fst (publicSSHKeyPath d w)) (diskPath d w) (DiskSize d) #
                (if createDiskImage w (fst (publicSSHKeyPath d w)) (diskPath d w) (DiskSize d) = None
                 then [FixPermissions (ResolveStorePath w (snd (publicSSHKeyPath d w)) ''.'')]
                 else [])
              else [])"
    and "d1 = (if IsNotExist (os_Stat w (diskPath d w)) then snd (publicSSHKeyPath d w) else d)"
  using assms
  by (auto simp: Start_launch_def Start_disk_def Let_def publicSSHKeyPath_def GetSSHKeyPath_def
      split: option.splits sum.splits prod.splits if_splits)

lemma Start_facts:
  "fst (snd (Start d w)) =
     (if IsNotExist (os_Stat w (diskPath d w)) then snd (publicSSHKeyPath d w) else d)
       \<lparr>IPAddress := IPAddress (fst (snd (Start d w)))\<rparr> \<and>
   (\<exists>evs. trace (snd (snd (Start d w))) = trace w @ evs \<and>
           filter isProvision evs =
             (if IsNotExist (os_Stat w (diskPath d w)) then
                CreateDiskImage (fst (publicSSHKeyPath d w)) (diskPath d w) (DiskSize d) #
                (if createDiskImage w (fst (publicSSHKeyPath d w)) (diskPath d w) (DiskSize d) = None
                 then [FixPermissions (ResolveStorePath w (snd (publicSSHKeyPath d w)) ''.'')]
                 else [])
              else []))"
proof -
  let ?d1 = "if IsNotExist (os_Stat w (diskPath d w)) then snd (publicSSHKeyPath d w) else d"
  obtain r d1 w1 where launch: "Start_launch d w = (r, d1, w1)"
    by (cases "Start_launch d w")
  from Start_launch_facts(2) [OF launch] have d1: "d1 = ?d1" .
  from Start_launch_facts(1) [OF launch] obtain evs where
    evs: "trace w1 = trace w @ evs"
      "filter isProvision evs =
             (if IsNotExist (os_Stat w (diskPath d w)) then
                CreateDiskImage (fst (publicSSHKeyPath d w)) (diskPath d w) (DiskSize d) #
                (if createDiskImage w (fst (publicSSHKeyPath d w)) (diskPath d w) (DiskSize d) = None
                 then [FixPermissions (ResolveStorePath w (snd (publicSSHKeyPath d w)) ''.'')]
                 else [])
              else [])"
    by blast
  show ?thesis
  proof (cases r)
    case (Inl err)
    with launch have "Start d w = (Some err, d1, w1)"
      by (simp add: Start_def)
    with evs d1 show ?thesis
      by simp
  next
    case (Inr mac)
    obtain r2 d2 w2 where retry: "RetryAfter 30 (getIP mac) 2 (d1, w1) = (r2, d2, w2)"
      by (cases "RetryAfter 30 (getIP mac) 2 (d1, w1)")
    from RetryAfter_getIP_frame [OF retry] obtain evs2 where
      d2: "d2 = d1\<lparr>IPAddress := IPAddress d2\<rparr>" and
      evs2: "trace w2 = trace w1 @ evs2" "filter isProvision evs2 = []"
      by blast
    from launch Inr retry have res: "snd (Start d w) = (d2, w2)"
      by (simp add: Start_def split: option.splits)
    from evs evs2 have tr: "trace w2 = trace w @ (evs @ evs2)"
      "filter isProvision (evs @ evs2) = filter isProvision evs"
      by simp_all
    from res d2 d1 have "fst (snd (Start d w)) = ?d1\<lparr>IPAddress := IPAddress (fst (snd (Start d w)))\<rparr>"
      by simp
    moreover from res tr evs(2) have "\<exists>evs. trace (snd (snd (Start d w))) = trace w @ evs \<and>
           filter isProvision evs =
             (if IsNotExist (os_Stat w (diskPath d w)) then
                CreateDiskImage (fst (publicSSHKeyPath d w)) (diskPath d w) (DiskSize d) #
                (if createDiskImage w (fst (publicSSHKeyPath d w)) (diskPath d w) (DiskSize d) = None
                 then [FixPermissions (ResolveStorePath w (snd (publicSSHKeyPath d w)) ''.'')]
                 else [])
              else [])"
      by (metis snd_conv)
    ultimately show ?thesis
      by blast
  qed
qed

lemmas launch_defs = Start_launch_def Start_disk_def Let_def trimMacAddress_def
  IsNotExist_def diskPath_def publicSSHKeyPath_def GetSSHKeyPath_def emit_def

lemma launch_world0:
  "fst (Start_launch driver0 world0) = Inr ''a:0:27:f:3b:c0''"
  "lookups (snd (snd (Start_launch driver0 world0))) = 0"
  "filter isLookupOrSleep (trace (snd (snd (Start_launch driver0 world0)))) = []"
  "GetIPAddressByMACAddress (snd (snd (Start_launch driver0 world0))) n mac =
     (if n < 2 then ('''', Some (ErrMsg ''could not find an IP address''))
      else (''192.168.64.2'', None))"
  by (simp_all add: launch_defs world_defs driver0_def)

lemma launch_world_nolease:
  "fst (Start_launch driver0 world_nolease) = Inr ''a:0:27:f:3b:c0''"
  "lookups (snd (snd (Start_launch driver0 world_nolease))) = 0"
  "GetIPAddressByMACAddress (snd (snd (Start_launch driver0 world_nolease))) n mac =
     ('''', Some (ErrMsg ''could not find an IP address''))"
  by (simp_all add: launch_defs world_defs driver0_def)

lemma launched:
  "Start_launch driver0 world0 =
     (Inr ''a:0:27:f:3b:c0'', fst (snd (Start_launch driver0 world0)),
      snd (snd (Start_launch driver0 world0)))"
  "Start_launch driver0 world_nolease =
     (Inr ''a:0:27:f:3b:c0'', fst (snd (Start_launch driver0 world_nolease)),
      snd (snd (Start_launch driver0 world_nolease)))"
  using launch_world0(1) launch_world_nolease(1)
  by (simp_all add: prod_eq_iff)

text \<open>
  Claim C3. Let \<open>Start\<close> reach its address resolution with the link-layer address \<open>mac\<close>,
  the driver \<open>d1\<close> and the world \<open>w1\<close>. If the lease lookup succeeds at the \<open>k\<close>-th attempt, \<open>1 \<le> k \<le> 30\<close>, after
  \<open>k - 1\<close> failures, then \<open>Start\<close> succeeds, the driver holds the address found, and the
  phase made exactly \<open>k\<close> lookups with a two-second sleep between consecutive ones (\<open>k - 1\<close>
  sleeps). If all of the thirty lookups fail, \<open>Start\<close> fails with the address-resolution
  error after exactly thirty lookups. And \<open>Start\<close> fails in this phase only if all thirty
  lookups fail: a failed lookup before the last is never escalated.
\<close>

theorem Start_resolves_address:
  assumes launch: "Start_launch d w = (Inr mac, d1, w1)"
  shows
   "(1 \<le> k \<and> k \<le> 30 \<and>
     (\<forall>j<k - 1. snd (GetIPAddressByMACAddress w1 (lookups w1 + j) mac) \<noteq> None) \<and>
     snd (GetIPAddressByMACAddress w1 (lookups w1 + (k - 1)) mac) = None \<longrightarrow>
       Start d w =
         (None,
          d1\<lparr>IPAddress := fst (GetIPAddressByMACAddress w1 (lookups w1 + (k - 1)) mac)\<rparr>,
          w1\<lparr>lookups := lookups w1 + k,
             trace := trace w1 @ concat (replicate (k - 1) [Lookup mac, Sleep 2]) @ [Lookup mac]\<rparr>)) \<and>
    ((\<forall>j<30. snd (GetIPAddressByMACAddress w1 (lookups w1 + j) mac) \<noteq> None) \<longrightarrow>
       Start d w =
         (Some (Errorf ''IP address never found in dhcp leases file %v''
            (RetriableError (the (snd (GetIPAddressByMACAddress w1 (lookups w1 + 29) mac))))),
          d1\<lparr>IPAddress := fst (GetIPAddressByMACAddress w1 (lookups w1 + 29) mac)\<rparr>,
          w1\<lparr>lookups := lookups w1 + 30,
             trace := trace w1 @ concat (replicate 29 [Lookup mac, Sleep 2]) @ [Lookup mac]\<rparr>)) \<and>
    (fst (Start d w) \<noteq> None \<longrightarrow>
       (\<forall>j<30. snd (GetIPAddressByMACAddress w1 (lookups w1 + j) mac) \<noteq> None))"
proof -
  let ?fails = "\<lambda>j. snd (GetIPAddressByMACAddress w1 (lookups w1 + j) mac) \<noteq> None"
  have found: "Start d w =
         (None,
          d1\<lparr>IPAddress := fst (GetIPAddressByMACAddress w1 (lookups w1 + i) mac)\<rparr>,
          w1\<lparr>lookups := lookups w1 + Suc i,
             trace := trace w1 @ concat (replicate i [Lookup mac, Sleep 2]) @ [Lookup mac]\<rparr>)"
    if "i < 30" "\<forall>j<i. ?fails j" "\<not> ?fails i" for i
  proof -
    from that have "RetryAfter 30 (getIP mac) 2 (d1, w1) =
      (None,
       d1\<lparr>IPAddress := fst (GetIPAddressByMACAddress w1 (lookups w1 + i) mac)\<rparr>,
       w1\<lparr>lookups := lookups w1 + Suc i,
          trace := trace w1 @ concat (replicate i [Lookup mac, Sleep 2]) @ [Lookup mac]\<rparr>)"
      by (intro RetryAfter_getIP_success) simp_all
    with launch show ?thesis
      by (simp add: Start_def)
  qed
  have first: "1 \<le> k \<and> k \<le> 30 \<and> (\<forall>j<k - 1. ?fails j) \<and> \<not> ?fails (k - 1) \<longrightarrow>
       Start d w =
         (None,
          d1\<lparr>IPAddress := fst (GetIPAddressByMACAddress w1 (lookups w1 + (k - 1)) mac)\<rparr>,
          w1\<lparr>lookups := lookups w1 + k,
             trace := trace w1 @ concat (replicate (k - 1) [Lookup mac, Sleep 2]) @ [Lookup mac]\<rparr>)"
  proof
    assume h: "1 \<le> k \<and> k \<le> 30 \<and> (\<forall>j<k - 1. ?fails j) \<and> \<not> ?fails (k - 1)"
    then have "1 \<le> k" "k \<le> 30"
      by blast+
    then have "k - 1 < 30" "Suc (k - 1) = k"
      by arith+
    with found [of "k - 1"] h show "Start d w =
         (None,
          d1\<lparr>IPAddress := fst (GetIPAddressByMACAddress w1 (lookups w1 + (k - 1)) mac)\<rparr>,
          w1\<lparr>lookups := lookups w1 + k,
             trace := trace w1 @ concat (replicate (k - 1) [Lookup mac, Sleep 2]) @ [Lookup mac]\<rparr>)"
      by simp
  qed
  have never: "(\<forall>j<30. ?fails j) \<longrightarrow>
       Start d w =
         (Some (Errorf ''IP address never found in dhcp leases file %v''
            (RetriableError (the (snd (GetIPAddressByMACAddress w1 (lookups w1 + 29) mac))))),
          d1\<lparr>IPAddress := fst (GetIPAddressByMACAddress w1 (lookups w1 + 29) mac)\<rparr>,
          w1\<lparr>lookups := lookups w1 + 30,
             trace := trace w1 @ concat (replicate 29 [Lookup mac, Sleep 2]) @ [Lookup mac]\<rparr>)"
  proof
    assume "\<forall>j<30. ?fails j"
    then have "RetryAfter 30 (getIP mac) 2 (d1, w1) =
      (Some (RetriableError (the (snd (GetIPAddressByMACAddress w1 (lookups w1 + (30 - 1)) mac)))),
       d1\<lparr>IPAddress := fst (GetIPAddressByMACAddress w1 (lookups w1 + (30 - 1)) mac)\<rparr>,
       w1\<lparr>lookups := lookups w1 + 30,
          trace := trace w1 @ concat (replicate (30 - 1) [Lookup mac, Sleep 2]) @ [Lookup mac]\<rparr>)"
      by (intro RetryAfter_getIP_exhausted) simp_all
    with launch show "Start d w =
         (Some (Errorf ''IP address never found in dhcp leases file %v''
            (RetriableError (the (snd (GetIPAddressByMACAddress w1 (lookups w1 + 29) mac))))),
          d1\<lparr>IPAddress := fst (GetIPAddressByMACAddress w1 (lookups w1 + 29) mac)\<rparr>,
          w1\<lparr>lookups := lookups w1 + 30,
             trace := trace w1 @ concat (replicate 29 [Lookup mac, Sleep 2]) @ [Lookup mac]\<rparr>)"
      by (simp add: Start_def)
  qed
  have escalate: "fst (Start d w) \<noteq> None \<longrightarrow> (\<forall>j<30. ?fails j)"
  proof (intro impI allI)
    fix j :: nat
    assume failed: "fst (Start d w) \<noteq> None" and j: "j < 30"
    show "?fails j"
    proof (rule ccontr)
      assume "\<not> ?fails j"
      define i where "i = (LEAST i. \<not> ?fails i)"
      from \<open>\<not> ?fails j\<close> have i: "\<not> ?fails i" "i \<le> j"
        unfolding i_def by (rule LeastI, rule Least_le)
      have "\<forall>j<i. ?fails j"
        unfolding i_def using not_less_Least by blast
      with found [of i] i j have "fst (Start d w) = None"
        by simp
      with failed show False
        by simp
    qed
  qed
  from first never escalate show ?thesis
    by blast
qed

theorem Start_resolves_address_witness:
  "fst (Start driver0 world0) = None \<and>
   IPAddress (fst (snd (Start driver0 world0))) = ''192.168.64.2'' \<and>
   lookups (snd (snd (Start driver0 world0))) = 3 \<and>
   filter isLookupOrSleep (trace (snd (snd (Start driver0 world0)))) =
     [Lookup ''a:0:27:f:3b:c0'', Sleep 2, Lookup ''a:0:27:f:3b:c0'', Sleep 2,
      Lookup ''a:0:27:f:3b:c0''] \<and>
   fst (Start driver0 world_nolease) =
     Some (Errorf ''IP address never found in dhcp leases file %v''
       (RetriableError (ErrMsg ''could not find an IP address''))) \<and>
   lookups (snd (snd (Start driver0 world_nolease))) = 30"
proof -
  let ?d1 = "fst (snd (Start_launch driver0 world0))"
  let ?w1 = "snd (snd (Start_launch driver0 world0))"
  let ?mac = "''a:0:27:f:3b:c0''"
  have third: "1 \<le> (3::nat) \<and> (3::nat) \<le> 30 \<and>
     (\<forall>j<3 - 1. snd (GetIPAddressByMACAddress ?w1 (lookups ?w1 + j) ?mac) \<noteq> None) \<and>
     snd (GetIPAddressByMACAddress ?w1 (lookups ?w1 + (3 - 1)) ?mac) = None"
    by (simp add: launch_world0)
  from Start_resolves_address [OF launched(1), of 3] third
  have a: "Start driver0 world0 =
         (None,
          ?d1\<lparr>IPAddress := fst (GetIPAddressByMACAddress ?w1 (lookups ?w1 + (3 - 1)) ?mac)\<rparr>,
          ?w1\<lparr>lookups := lookups ?w1 + 3,
             trace := trace ?w1 @ concat (replicate (3 - 1) [Lookup ?mac, Sleep 2]) @ [Lookup ?mac]\<rparr>)"
    by blast
  let ?d2 = "fst (snd (Start_launch driver0 world_nolease))"
  let ?w2 = "snd (snd (Start_launch driver0 world_nolease))"
  have never: "\<forall>j<30. snd (GetIPAddressByMACAddress ?w2 (lookups ?w2 + j) ?mac) \<noteq> None"
    by (simp add: launch_world_nolease)
  from Start_resolves_address [OF launched(2), of 3] never
  have b: "Start driver0 world_nolease =
         (Some (Errorf ''IP address never found in dhcp leases file %v''
            (RetriableError (the (snd (GetIPAddressByMACAddress ?w2 (lookups ?w2 + 29) ?mac))))),
          ?d2\<lparr>IPAddress := fst (GetIPAddressByMACAddress ?w2 (lookups ?w2 + 29) ?mac)\<rparr>,
          ?w2\<lparr>lookups := lookups ?w2 + 30,
             trace := trace ?w2 @ concat (replicate 29 [Lookup ?mac, Sleep 2]) @ [Lookup ?mac]\<rparr>)"
    by blast
  have two: "replicate 2 x = [x, x]" for x :: "event list"
    by (simp add: numeral_2_eq_2)
  from a have "fst (Start driver0 world0) = None"
    "IPAddress (fst (snd (Start driver0 world0))) = ''192.168.64.2''"
    "lookups (snd (snd (Start driver0 world0))) = 3"
    "filter isLookupOrSleep (trace (snd (snd (Start driver0 world0)))) =
       [Lookup ?mac, Sleep 2, Lookup ?mac, Sleep 2, Lookup ?mac]"
    by (simp_all add: launch_world0 two)
  moreover from b have "fst (Start driver0 world_nolease) =
     Some (Errorf ''IP address never found in dhcp leases file %v''
       (RetriableError (ErrMsg ''could not find an IP address'')))"
    "lookups (snd (snd (Start driver0 world_nolease))) = 30"
    by (simp_all add: launch_world_nolease)
  ultimately show ?thesis
    by simp
qed

text \<open>
  Claim C5. If the disk image exists when \<open>Start\<close> is called (\<open>os.Stat\<close> succeeds, or fails
  otherwise than with ``does not exist''), \<open>Start\<close> calls neither \<open>createDiskImage\<close> nor
  \<open>fixPermissions\<close>. If it does not exist, \<open>Start\<close> calls \<open>createDiskImage\<close> once, for the
  image's path and the configured \<open>DiskSize\<close>, and then, when that succeeded,
  \<open>fixPermissions\<close> once; it makes no other such call.
\<close>

theorem Start_disk_image_once:
  "(os_Stat w (diskPath d w) = None \<longrightarrow>
      filter isProvision (new_events w (snd (snd (Start d w)))) = []) \<and>
   (\<not> IsNotExist (os_Stat w (diskPath d w)) \<longrightarrow>
      filter isProvision (new_events w (snd (snd (Start d w)))) = []) \<and>
   (IsNotExist (os_Stat w (diskPath d w)) \<longrightarrow>
      filter isProvision (new_events w (snd (snd (Start d w)))) =
        CreateDiskImage (fst (publicSSHKeyPath d w)) (diskPath d w) (DiskSize d) #
        (if createDiskImage w (fst (publicSSHKeyPath d w)) (diskPath d w) (DiskSize d) = None
         then [FixPermissions (ResolveStorePath w (snd (publicSSHKeyPath d w)) ''.'')]
                 else []))"
proof -
  from Start_facts [of d w] obtain evs where
    "trace (snd (snd (Start d w))) = trace w @ evs"
    "filter isProvision evs =
             (if IsNotExist (os_Stat w (diskPath d w)) then
                CreateDiskImage (fst (publicSSHKeyPath d w)) (diskPath d w) (DiskSize d) #
                (if createDiskImage w (fst (publicSSHKeyPath d w)) (diskPath d w) (DiskSize d) = None
                 then [FixPermissions (ResolveStorePath w (snd (publicSSHKeyPath d w)) ''.'')]
                 else [])
              else [])"
    by blast
  then show ?thesis
    by (simp add: new_events_def IsNotExist_def)
qed

theorem Start_disk_image_once_witness:
  "os_Stat world_disk (diskPath driver0 world_disk) = None \<and>
   filter isProvision (new_events world_disk (snd (snd (Start driver0 world_disk)))) = [] \<and>
   IsNotExist (os_Stat world0 (diskPath driver0 world0)) \<and>
   filter isProvision (new_events world0 (snd (snd (Start driver0 world0)))) =
     [CreateDiskImage ''/Users/u/.minikube/machines/minikube/id_rsa.pub''
        ''/Users/u/.minikube/machines/minikube/./minikube.rawdisk'' 20000,
      FixPermissions ''/Users/u/.minikube/machines/minikube/.'']"
proof -
  have present: "os_Stat world_disk (diskPath driver0 world_disk) = None"
    by (simp add: world_disk_def world0_def)
  have absent: "IsNotExist (os_Stat world0 (diskPath driver0 world0))"
    by (simp add: world0_def IsNotExist_def)
  from Start_disk_image_once [of world_disk driver0] present
  have a: "filter isProvision (new_events world_disk (snd (snd (Start driver0 world_disk)))) = []"
    by blast
  from Start_disk_image_once [of world0 driver0] absent
  have "filter isProvision (new_events world0 (snd (snd (Start driver0 world0)))) =
        CreateDiskImage (fst (publicSSHKeyPath driver0 world0)) (diskPath driver0 world0) (DiskSize driver0) #
        (if createDiskImage world0 (fst (publicSSHKeyPath driver0 world0)) (diskPath driver0 world0)
              (DiskSize driver0) = None
         then [FixPermissions (ResolveStorePath world0 (snd (publicSSHKeyPath driver0 world0)) ''.'')]
         else [])"
    by blast
  then have b: "filter isProvision (new_events world0 (snd (snd (Start driver0 world0)))) =
     [CreateDiskImage ''/Users/u/.minikube/machines/minikube/id_rsa.pub''
        ''/Users/u/.minikube/machines/minikube/./minikube.rawdisk'' 20000,
      FixPermissions ''/Users/u/.minikube/machines/minikube/.'']"
    by (simp add: world0_def driver0_def publicSSHKeyPath_def GetSSHKeyPath_def diskPath_def)
  from present a absent b show ?thesis
    by simp
qed

lemma driver_frame:
  assumes "d' = d1\<lparr>IPAddress := ip\<rparr>" and "d1 = d\<lparr>SSHKeyPath := k\<rparr>"
  shows "d' = d\<lparr>IPAddress := ip, SSHKeyPath := k\<rparr>"
    and "SSHKeyPath d' = k"
    and "DiskSize d' = DiskSize d \<and> CPU d' = CPU d \<and> Memory d' = Memory d \<and>
      Boot2DockerURL d' = Boot2DockerURL d \<and> Cmdline d' = Cmdline d \<and>
      MachineName d' = MachineName d \<and> StorePath d' = StorePath d \<and> SSHUser d' = SSHUser d"
  using assms by simp_all

text \<open>
  Claim C10, as the code has it. After \<open>Start\<close>, whether it succeeded or failed, \<open>DiskSize\<close>,
  \<open>CPU\<close>, \<open>Memory\<close>, \<open>Boot2DockerURL\<close>, \<open>Cmdline\<close>, \<open>MachineName\<close>, \<open>StorePath\<close> and \<open>SSHUser\<close> are
  unchanged. The fields that \<open>Start\<close> may change are \<open>IPAddress\<close> and \<open>SSHKeyPath\<close>: when the
  disk image does not exist and \<open>SSHKeyPath\<close> is empty, the call of \<open>publicSSHKeyPath\<close> sets
  \<open>SSHKeyPath\<close> to the store path of \<open>id_rsa\<close>; otherwise \<open>SSHKeyPath\<close> is unchanged too.
\<close>

theorem Start_listed_fields_unchanged:
  "DiskSize (fst (snd (Start d w))) = DiskSize d \<and>
   CPU (fst (snd (Start d w))) = CPU d \<and>
   Memory (fst (snd (Start d w))) = Memory d \<and>
   Boot2DockerURL (fst (snd (Start d w))) = Boot2DockerURL d \<and>
   Cmdline (fst (snd (Start d w))) = Cmdline d \<and>
   MachineName (fst (snd (Start d w))) = MachineName d \<and>
   StorePath (fst (snd (Start d w))) = StorePath d \<and>
   SSHUser (fst (snd (Start d w))) = SSHUser d \<and>
   fst (snd (Start d w)) =
     d\<lparr>IPAddress := IPAddress (fst (snd (Start d w))),
       SSHKeyPath := SSHKeyPath (fst (snd (Start d w)))\<rparr> \<and>
   SSHKeyPath (fst (snd (Start d w))) =
     (if IsNotExist (os_Stat w (diskPath d w)) \<and> SSHKeyPath d = ''''
      then ResolveStorePath w d ''id_rsa'' else SSHKeyPath d)"
proof -
  let ?d' = "fst (snd (Start d w))"
  let ?d1 = "if IsNotExist (os_Stat w (diskPath d w)) then snd (publicSSHKeyPath d w) else d"
  from Start_facts [of d w] have eq: "?d' = ?d1\<lparr>IPAddress := IPAddress ?d'\<rparr>"
    by blast
  have d1: "?d1 = d\<lparr>SSHKeyPath := SSHKeyPath ?d1\<rparr>"
    using publicSSHKeyPath_frame(1) [of d w] by simp
  have key: "SSHKeyPath ?d1 =
     (if IsNotExist (os_Stat w (diskPath d w)) \<and> SSHKeyPath d = ''''
      then ResolveStorePath w d ''id_rsa'' else SSHKeyPath d)"
    by (simp add: publicSSHKeyPath_frame(2))
  note frame = driver_frame [OF eq d1]
  have both: "?d' = d\<lparr>IPAddress := IPAddress ?d', SSHKeyPath := SSHKeyPath ?d'\<rparr>"
    unfolding frame(2) by (rule frame(1))
  have path: "SSHKeyPath ?d' =
     (if IsNotExist (os_Stat w (diskPath d w)) \<and> SSHKeyPath d = ''''
      then ResolveStorePath w d ''id_rsa'' else SSHKeyPath d)"
    unfolding frame(2) by (rule key)
  from frame(3) both path show ?thesis
    by blast
qed

theorem Start_listed_fields_unchanged_witness:
  "DiskSize (fst (snd (Start driver0 world0))) = 20000 \<and>
   CPU (fst (snd (Start driver0 world0))) = 2 \<and>
   MachineName (fst (snd (Start driver0 world0))) = ''minikube'' \<and>
   SSHUser (fst (snd (Start driver0 world0))) = ''docker'' \<and>
   StorePath (fst (snd (Start driver0 world_nolease))) = ''/Users/u/.minikube'' \<and>
   Memory (fst (snd (Start driver0 world_nolease))) = 2048 \<and>
   SSHKeyPath (fst (snd (Start driver0 world_disk))) = ''''"
proof -
  have present: "\<not> IsNotExist (os_Stat world_disk (diskPath driver0 world_disk))"
    by (simp add: world_disk_def world0_def IsNotExist_def)
  note a = Start_listed_fields_unchanged [of driver0 world0]
  note b = Start_listed_fields_unchanged [of driver0 world_nolease]
  note c = Start_listed_fields_unchanged [of driver0 world_disk]
  from a have "DiskSize (fst (snd (Start driver0 world0))) = DiskSize driver0"
    "CPU (fst (snd (Start driver0 world0))) = CPU driver0"
    "MachineName (fst (snd (Start driver0 world0))) = MachineName driver0"
    "SSHUser (fst (snd (Start driver0 world0))) = SSHUser driver0"
    by blast+
  moreover from b have "StorePath (fst (snd (Start driver0 world_nolease))) = StorePath driver0"
    "Memory (fst (snd (Start driver0 world_nolease))) = Memory driver0"
    by blast+
  moreover from c have "SSHKeyPath (fst (snd (Start driver0 world_disk))) =
     (if IsNotExist (os_Stat world_disk (diskPath driver0 world_disk)) \<and> SSHKeyPath driver0 = ''''
      then ResolveStorePath world_disk driver0 ''id_rsa'' else SSHKeyPath driver0)"
    by blast
  with present have "SSHKeyPath (fst (snd (Start driver0 world_disk))) = SSHKeyPath driver0"
    by simp
  ultimately show ?thesis
    by (simp add: driver0_def)
qed

text \<open>With no disk image and an empty \<open>SSHKeyPath\<close>, \<open>Start\<close> changes a field that is not
  \<open>IPAddress\<close>: it sets \<open>SSHKeyPath\<close>.\<close>

theorem Start_SSHKeyPath_counterexample:
  "SSHKeyPath driver0 = '''' \<and>
   SSHKeyPath (fst (snd (Start driver0 world0))) =
     ''/Users/u/.minikube/machines/minikube/id_rsa'' \<and>
   fst (snd (Start driver0 world0)) \<noteq>
     driver0\<lparr>IPAddress := IPAddress (fst (snd (Start driver0 world0)))\<rparr>"
proof -
  let ?d' = "fst (snd (Start driver0 world0))"
  have absent: "IsNotExist (os_Stat world0 (diskPath driver0 world0))"
    by (simp add: world0_def IsNotExist_def)
  have empty: "SSHKeyPath driver0 = ''''"
    by (simp add: driver0_def)
  from Start_facts [of driver0 world0] absent
  have eq: "?d' = (snd (publicSSHKeyPath driver0 world0))\<lparr>IPAddress := IPAddress ?d'\<rparr>"
    by (simp only: if_True)
  have "SSHKeyPath ?d' =
      SSHKeyPath ((snd (publicSSHKeyPath driver0 world0))\<lparr>IPAddress := IPAddress ?d'\<rparr>)"
    by (rule arg_cong [OF eq])
  also have "\<dots> = ''/Users/u/.minikube/machines/minikube/id_rsa''"
    by (simp add: publicSSHKeyPath_def GetSSHKeyPath_def world0_def driver0_def)
  finally have key: "SSHKeyPath ?d' = ''/Users/u/.minikube/machines/minikube/id_rsa''" .
  have differ: "?d' \<noteq> driver0\<lparr>IPAddress := IPAddress ?d'\<rparr>"
  proof
    assume same: "?d' = driver0\<lparr>IPAddress := IPAddress ?d'\<rparr>"
    have "SSHKeyPath ?d' = SSHKeyPath (driver0\<lparr>IPAddress := IPAddress ?d'\<rparr>)"
      by (rule arg_cong [OF same])
    also have "\<dots> = ''''"
      by (simp add: driver0_def)
    finally show False
      using key by simp
  qed
  from empty key differ show ?thesis
    by blast
qed

end
